theory Spec2Isabelle
  imports Main
begin

section \<open>The eye-disease record service: resolvers of \<open>src/todo/index.js\<close>\<close>

text \<open>
  The program keeps an array \<open>recordsData\<close> of records and a counter \<open>nextId\<close> in
  memory, and offers five resolvers over them: \<open>records\<close>, \<open>record\<close>, \<open>addRecord\<close>,
  \<open>updateRecord\<close> and \<open>deleteRecord\<close>. The resolvers are modelled as functions that take
  the store and return their result together with the store they leave behind; a
  \<open>throw\<close> is the left injection of the result, and the store returned with it is the
  store as the statement that threw found it.
\<close>

subsection \<open>JavaScript values and the built-ins the resolvers call\<close>

text \<open>
  Resolver arguments are JavaScript primitives. A string is a list of code units, one
  \<open>char\<close> each (code units below 256). A number is a safe integer, that is, a
  Number \<open>n\<close> with \<open>Number.isSafeInteger(n)\<close>: an integer of magnitude at most
  \<open>2^53 - 1\<close>. Such a Number is exact and \<open>String\<close> prints it as a plain decimal
  numeral; larger and fractional Numbers are not values of the model.
\<close>

typedef safe_integer = "{n :: int. \<bar>n\<bar> \<le> 9007199254740991}"
  morphisms int_of_safe safe_integer_of
  by (rule exI [of _ 0]) simp

setup_lifting type_definition_safe_integer

datatype jsval = JUndefined | JNull | JBool bool | JNum safe_integer | JStr string

datatype error = Error string | TypeError | RangeError

text \<open>Truthiness, as tested by \<open>!v\<close> and \<open>v && ...\<close>.\<close>

fun truthy :: "jsval \<Rightarrow> bool" where
  "truthy JUndefined = False"
| "truthy JNull = False"
| "truthy (JBool b) = b"
| "truthy (JNum n) = (int_of_safe n \<noteq> 0)"
| "truthy (JStr s) = (s \<noteq> [])"

text \<open>Decimal numerals, as \<open>String(n)\<close> prints an integer.\<close>

definition digit_char :: "nat \<Rightarrow> char" where
  "digit_char d = char_of (48 + d)"

definition digit_val :: "char \<Rightarrow> nat" where
  "digit_val c = of_char c - 48"

fun string_of_nat :: "nat \<Rightarrow> string" where
  "string_of_nat n =
     (if n < 10 then [digit_char n]
      else string_of_nat (n div 10) @ [digit_char (n mod 10)])"

declare string_of_nat.simps [simp del]

definition nat_of_string :: "string \<Rightarrow> nat" where
  "nat_of_string s = foldl (\<lambda>a c. 10 * a + digit_val c) 0 s"

definition string_of_int :: "int \<Rightarrow> string" where
  "string_of_int i =
     (if i < 0 then CHR ''-'' # string_of_nat (nat (- i)) else string_of_nat (nat i))"

text \<open>\<open>String(v)\<close>, which is also what a template literal \<open>`${v}`\<close> inserts.\<close>

fun js_String :: "jsval \<Rightarrow> string" where
  "js_String JUndefined = ''undefined''"
| "js_String JNull = ''null''"
| "js_String (JBool b) = (if b then ''true'' else ''false'')"
| "js_String (JNum n) = string_of_int (int_of_safe n)"
| "js_String (JStr s) = s"

text \<open>
  \<open>String.prototype.trim\<close>: white space and line terminators among the code units
  below 256 are TAB, LF, VT, FF, CR, SPACE and NBSP.
\<close>

definition js_whitespace :: "char \<Rightarrow> bool" where
  "js_whitespace c = ((of_char c :: nat) \<in> {9, 10, 11, 12, 13, 32, 160})"

definition js_trim :: "string \<Rightarrow> string" where
  "js_trim s = rev (dropWhile js_whitespace (rev (dropWhile js_whitespace s)))"

text \<open>\<open>Array.prototype.join\<close> on an array of strings.\<close>

fun js_join :: "string \<Rightarrow> string list \<Rightarrow> string" where
  "js_join sep [] = []"
| "js_join sep [x] = x"
| "js_join sep (x # y # ys) = x @ sep @ js_join sep (y # ys)"

text \<open>
  \<open>Array.prototype.findIndex\<close>; the source's \<open>-1\<close> is \<open>None\<close>.
\<close>

fun findIndex :: "('a \<Rightarrow> bool) \<Rightarrow> 'a list \<Rightarrow> nat option" where
  "findIndex P [] = None"
| "findIndex P (x # xs) =
     (if P x then Some 0 else map_option Suc (findIndex P xs))"

text \<open>
  The host's \<open>Date\<close>: what \<open>Date.parse\<close> makes of a string (a time value in
  milliseconds, \<open>None\<close> for \<open>NaN\<close>), how \<open>toISOString\<close> prints a time value, and the
  clock reading at the moment of the call. The source only calls them, so they are
  parameters of the model.
\<close>

record host =
  Date_parse :: "string \<Rightarrow> int option"
  toISOString :: "int \<Rightarrow> string"
  Date_now :: int

text \<open>
  \<open>new Date(v)\<close>: the time value of the date object, \<open>None\<close> for an invalid date.
  A string is parsed as \<open>Date.parse\<close> parses it; any other primitive is converted to
  a number and clipped to the range of time values.
\<close>

fun new_Date :: "host \<Rightarrow> jsval \<Rightarrow> int option" where
  "new_Date h (JStr s) = Date_parse h s"
| "new_Date h (JNum n) =
     (if \<bar>int_of_safe n\<bar> \<le> 8640000000000000 then Some (int_of_safe n) else None)"
| "new_Date h (JBool b) = Some (if b then 1 else 0)"
| "new_Date h JNull = Some 0"
| "new_Date h JUndefined = None"

text \<open>\<open>new Date(v).toISOString()\<close> throws a \<open>RangeError\<close> on an invalid date.\<close>

definition Date_toISOString :: "host \<Rightarrow> jsval \<Rightarrow> error + string" where
  "Date_toISOString h v =
     (case new_Date h v of None \<Rightarrow> Inl RangeError | Some t \<Rightarrow> Inr (toISOString h t))"

subsection \<open>The data: records, the store, the seed\<close>

record Record =
  rid :: string
  name :: string
  disease :: string
  dateAdded :: string

record DeleteResult =
  success :: bool
  message :: string
  removed :: "Record option"

text \<open>
  The store is the pair of the two variables \<open>recordsData\<close> and \<open>nextId\<close>. The
  counter is a Number that starts at 21 and only ever grows by one; it is modelled as
  a natural number, which is exact as long as it stays below \<open>2^53\<close>.
\<close>

record store =
  recordsData :: "Record list"
  nextId :: nat

definition DISEASES :: "string list" where
  "DISEASES = [''Bulging_Eyes'', ''Cataracts'', ''Crossed_Eyes'', ''Glaucoma'', ''Uveitis'']"

definition mk :: "string \<Rightarrow> string \<Rightarrow> string \<Rightarrow> string \<Rightarrow> Record" where
  "mk i n d t = \<lparr>rid = i, name = n, disease = d, dateAdded = t\<rparr>"

definition seed_records :: "Record list" where
  "seed_records =
    [mk ''1'' ''Aarav'' ''Cataracts'' ''2025-01-05T09:10:00.000Z'',
     mk ''2'' ''Ananya'' ''Glaucoma'' ''2025-01-06T11:22:00.000Z'',
     mk ''3'' ''Rahul'' ''Uveitis'' ''2025-01-07T14:05:00.000Z'',
     mk ''4'' ''Sneha'' ''Crossed_Eyes'' ''2025-01-08T08:45:00.000Z'',
     mk ''5'' ''Neha'' ''Bulging_Eyes'' ''2025-01-09T12:30:00.000Z'',
     mk ''6'' ''Vikram'' ''Cataracts'' ''2025-01-10T16:40:00.000Z'',
     mk ''7'' ''Kiran'' ''Glaucoma'' ''2025-01-11T10:15:00.000Z'',
     mk ''8'' ''Isha'' ''Uveitis'' ''2025-01-12T07:55:00.000Z'',
     mk ''9'' ''Rohan'' ''Crossed_Eyes'' ''2025-01-13T18:05:00.000Z'',
     mk ''10'' ''Priya'' ''Bulging_Eyes'' ''2025-01-14T09:00:00.000Z'',
     mk ''11'' ''Aditi'' ''Glaucoma'' ''2025-01-15T13:25:00.000Z'',
     mk ''12'' ''Sahil'' ''Cataracts'' ''2025-01-16T17:45:00.000Z'',
     mk ''13'' ''Kavya'' ''Uveitis'' ''2025-01-17T06:35:00.000Z'',
     mk ''14'' ''Dev'' ''Crossed_Eyes'' ''2025-01-18T20:10:00.000Z'',
     mk ''15'' ''Meera'' ''Bulging_Eyes'' ''2025-01-19T08:20:00.000Z'',
     mk ''16'' ''Arjun'' ''Glaucoma'' ''2025-01-20T15:55:00.000Z'',
     mk ''17'' ''Diya'' ''Cataracts'' ''2025-01-21T11:05:00.000Z'',
     mk ''18'' ''Nikhil'' ''Uveitis'' ''2025-01-22T12:45:00.000Z'',
     mk ''19'' ''Tanvi'' ''Crossed_Eyes'' ''2025-01-23T07:15:00.000Z'',
     mk ''20'' ''Ishan'' ''Bulging_Eyes'' ''2025-01-24T19:30:00.000Z'']"

definition seed :: store where
  "seed = \<lparr>recordsData = seed_records, nextId = 21\<rparr>"

subsection \<open>Helpers\<close>

text \<open>
  \<open>isValidDate\<close>: a falsy value is no date; otherwise \<open>Date.parse\<close> is applied to
  the value's string and must not give \<open>NaN\<close>.
\<close>

definition isValidDate :: "host \<Rightarrow> jsval \<Rightarrow> bool" where
  "isValidDate h val =
     (if \<not> truthy val then False else Date_parse h (js_String val) \<noteq> None)"

definition nowISO :: "host \<Rightarrow> string" where
  "nowISO h = toISOString h (Date_now h)"

definition disease_message :: string where
  "disease_message = ''Disease must be one of: '' @ js_join '', '' DISEASES"

text \<open>\<open>DISEASES.includes(v)\<close>: only a string can equal an element of the array.\<close>

fun includes_DISEASES :: "jsval \<Rightarrow> bool" where
  "includes_DISEASES (JStr d) = (d \<in> set DISEASES)"
| "includes_DISEASES _ = False"

text \<open>The predicate every resolver searches with: \<open>r => r.id === String(id)\<close>.\<close>

definition has_id :: "jsval \<Rightarrow> Record \<Rightarrow> bool" where
  "has_id i r = (rid r = js_String i)"

subsection \<open>Queries\<close>

definition records :: "store \<Rightarrow> Record list" where
  "records s = recordsData s"

text \<open>\<open>recordsData.find(...) || null\<close>; \<open>None\<close> is \<open>null\<close>.\<close>

definition record_q :: "store \<Rightarrow> jsval \<Rightarrow> Record option" where
  "record_q s i = find (has_id i) (recordsData s)"

subsection \<open>addRecord\<close>

text \<open>
  The name check \<open>!name || !name.trim()\<close>; calling \<open>trim\<close> on a truthy value
  that is not a string is a \<open>TypeError\<close>. The value kept is \<open>name.trim()\<close>.
\<close>

definition add_name :: "jsval \<Rightarrow> error + string" where
  "add_name nm =
     (if \<not> truthy nm then Inl (Error ''Name is required.'')
      else case nm of
        JStr n \<Rightarrow>
          if js_trim n = [] then Inl (Error ''Name is required.'') else Inr (js_trim n)
      | _ \<Rightarrow> Inl TypeError)"

definition add_disease :: "jsval \<Rightarrow> error + string" where
  "add_disease d =
     (if \<not> includes_DISEASES d then Inl (Error disease_message)
      else Inr (js_String d))"

text \<open>
  \<open>dateAdded && isValidDate(dateAdded) ? new Date(dateAdded).toISOString() : nowISO()\<close>
\<close>

definition add_date :: "host \<Rightarrow> jsval \<Rightarrow> error + string" where
  "add_date h d =
     (if truthy d \<and> isValidDate h d then Date_toISOString h d else Inr (nowISO h))"

definition addRecord ::
  "host \<Rightarrow> store \<Rightarrow> jsval \<Rightarrow> jsval \<Rightarrow> jsval \<Rightarrow> (error + Record) \<times> store" where
  "addRecord h s nm d da =
     (case add_name nm of
        Inl e \<Rightarrow> (Inl e, s)
      | Inr n \<Rightarrow>
     (case add_disease d of
        Inl e \<Rightarrow> (Inl e, s)
      | Inr dis \<Rightarrow>
     (case add_date h da of
        Inl e \<Rightarrow> (Inl e, s)
      | Inr date \<Rightarrow>
          let newRecord =
                \<lparr>rid = string_of_nat (nextId s), name = n, disease = dis, dateAdded = date\<rparr>
          in (Inr newRecord,
              \<lparr>recordsData = recordsData s @ [newRecord], nextId = nextId s + 1\<rparr>))))"

subsection \<open>updateRecord\<close>

text \<open>
  The three guarded blocks of the resolver, each on the record \<open>rec\<close> found. A block
  runs only when its argument is a string (\<open>typeof v === 'string'\<close>); it either throws
  or assigns one field.
\<close>

fun upd_name :: "jsval \<Rightarrow> Record \<Rightarrow> error + Record" where
  "upd_name (JStr n) rec =
     (if js_trim n = [] then Inl (Error ''Name cannot be empty.'')
      else Inr (rec\<lparr>name := js_trim n\<rparr>))"
| "upd_name _ rec = Inr rec"

fun upd_disease :: "jsval \<Rightarrow> Record \<Rightarrow> error + Record" where
  "upd_disease (JStr d) rec =
     (if \<not> includes_DISEASES (JStr d) then Inl (Error disease_message)
      else Inr (rec\<lparr>disease := d\<rparr>))"
| "upd_disease _ rec = Inr rec"

fun upd_date :: "host \<Rightarrow> jsval \<Rightarrow> Record \<Rightarrow> error + Record" where
  "upd_date h (JStr d) rec =
     (if \<not> isValidDate h (JStr d)
      then Inl (Error ''dateAdded must be a valid ISO date/time.'')
      else case Date_toISOString h (JStr d) of
             Inl e \<Rightarrow> Inl e
           | Inr t \<Rightarrow> Inr (rec\<lparr>dateAdded := t\<rparr>))"
| "upd_date h _ rec = Inr rec"

text \<open>
  \<open>rec\<close> is the array's own object, so each assignment is a write to the store at the
  index where the record was found: \<open>put i r s\<close>. When a later block throws, the
  writes of the earlier blocks have been made.
\<close>

definition put :: "nat \<Rightarrow> Record \<Rightarrow> store \<Rightarrow> store" where
  "put i r s = s\<lparr>recordsData := (recordsData s)[i := r]\<rparr>"

definition updateRecord ::
  "host \<Rightarrow> store \<Rightarrow> jsval \<Rightarrow> jsval \<Rightarrow> jsval \<Rightarrow> jsval \<Rightarrow> (error + Record) \<times> store" where
  "updateRecord h s i nm d da =
     (case findIndex (has_id i) (recordsData s) of
        None \<Rightarrow> (Inl (Error (''Record with id '' @ js_String i @ '' not found.'')), s)
      | Some k \<Rightarrow>
     (case upd_name nm (recordsData s ! k) of
        Inl e \<Rightarrow> (Inl e, s)
      | Inr r1 \<Rightarrow>
     (case upd_disease d r1 of
        Inl e \<Rightarrow> (Inl e, put k r1 s)
      | Inr r2 \<Rightarrow>
     (case upd_date h da r2 of
        Inl e \<Rightarrow> (Inl e, put k r2 s)
      | Inr r3 \<Rightarrow> (Inr r3, put k r3 s)))))"

subsection \<open>deleteRecord\<close>

text \<open>\<open>recordsData.splice(idx, 1)\<close> takes the element at \<open>idx\<close> out of the array.\<close>

definition splice1 :: "nat \<Rightarrow> 'a list \<Rightarrow> 'a list" where
  "splice1 idx xs = take idx xs @ drop (Suc idx) xs"

definition deleteRecord :: "store \<Rightarrow> jsval \<Rightarrow> DeleteResult \<times> store" where
  "deleteRecord s i =
     (case findIndex (has_id i) (recordsData s) of
        None \<Rightarrow>
          (\<lparr>success = False,
            message = ''Record with id '' @ js_String i @ '' not found.'',
            removed = None\<rparr>, s)
      | Some idx \<Rightarrow>
          (\<lparr>success = True,
            message = ''Record '' @ js_String i @ '' deleted successfully.'',
            removed = Some (recordsData s ! idx)\<rparr>,
           s\<lparr>recordsData := splice1 idx (recordsData s)\<rparr>))"

subsection \<open>Requests in sequence\<close>

text \<open>
  The server handles one request after another on the same store. A request is a
  resolver call together with the host as it is when the call arrives (its clock
  reading in particular); \<open>run\<close> handles a list of requests from a given store and
  returns the responses in order and the final store.
\<close>

datatype call =
    Records
  | RecordQ jsval
  | AddRecord jsval jsval jsval
  | UpdateRecord jsval jsval jsval jsval
  | DeleteRecord jsval

datatype response =
    Listed "Record list"
  | Found "Record option"
  | Added "error + Record"
  | Updated "error + Record"
  | Deleted DeleteResult

fun exec :: "host \<Rightarrow> call \<Rightarrow> store \<Rightarrow> response \<times> store" where
  "exec h Records s = (Listed (records s), s)"
| "exec h (RecordQ i) s = (Found (record_q s i), s)"
| "exec h (AddRecord nm d da) s = (case addRecord h s nm d da of (r, s') \<Rightarrow> (Added r, s'))"
| "exec h (UpdateRecord i nm d da) s =
     (case updateRecord h s i nm d da of (r, s') \<Rightarrow> (Updated r, s'))"
| "exec h (DeleteRecord i) s = (case deleteRecord s i of (r, s') \<Rightarrow> (Deleted r, s'))"

fun run :: "(host \<times> call) list \<Rightarrow> store \<Rightarrow> response list \<times> store" where
  "run [] s = ([], s)"
| "run ((h, c) # cs) s =
     (case exec h c s of (r, s1) \<Rightarrow> (case run cs s1 of (rs, s2) \<Rightarrow> (r # rs, s2)))"

text \<open>The ids of the records that successful \<open>addRecord\<close> calls returned, in order.\<close>

fun added_ids :: "response list \<Rightarrow> string list" where
  "added_ids [] = []"
| "added_ids (Added (Inr r) # rs) = rid r # added_ids rs"
| "added_ids (_ # rs) = added_ids rs"

subsection \<open>Well-formed stores\<close>

text \<open>
  An id is in order below a counter value \<open>n\<close> when it is the decimal numeral of a
  number below \<open>n\<close>. A store is in order when its ids are pairwise different and
  each is in order below \<open>nextId\<close>.
\<close>

definition id_ok :: "nat \<Rightarrow> string \<Rightarrow> bool" where
  "id_ok n i = (string_of_nat (nat_of_string i) = i \<and> nat_of_string i < n)"

definition store_ok :: "store \<Rightarrow> bool" where
  "store_ok s =
     (distinct (map rid (recordsData s)) \<and>
      list_all (id_ok (nextId s)) (map rid (recordsData s)))"

subsection \<open>A sample host\<close>

text \<open>
  A host for evaluating the resolvers on concrete requests: its \<open>Date.parse\<close> knows
  one ISO string, and its clock reads 2025-03-01T12:00:00.000Z.
\<close>

definition host0 :: host where
  "host0 =
    \<lparr>Date_parse =
       (\<lambda>s. if s = ''2025-02-01T00:00:00.000Z'' then Some 1738368000000 else None),
     toISOString =
       (\<lambda>t. if t = 1738368000000 then ''2025-02-01T00:00:00.000Z''
            else ''2025-03-01T12:00:00.000Z''),
     Date_now = 1740830400000\<rparr>"

text \<open>
  Four requests on that host: an add, the deletion of the record just added, an add
  that fails on its blank name, and another add.
\<close>

definition requests0 :: "(host \<times> call) list" where
  "requests0 =
     [(host0, AddRecord (JStr ''Test'') (JStr ''Glaucoma'') JUndefined),
      (host0, DeleteRecord (JStr ''21'')),
      (host0, AddRecord (JStr '''') (JStr ''Glaucoma'') JUndefined),
      (host0, AddRecord (JStr ''Ann'') (JStr ''Uveitis'') JNull)]"

section \<open>Decimal numerals\<close>

lemma digit_char_table:
  "digit_char 0 = CHR ''0''" "digit_char 1 = CHR ''1''" "digit_char 2 = CHR ''2''"
  "digit_char 3 = CHR ''3''" "digit_char 4 = CHR ''4''" "digit_char 5 = CHR ''5''"
  "digit_char 6 = CHR ''6''" "digit_char 7 = CHR ''7''" "digit_char 8 = CHR ''8''"
  "digit_char 9 = CHR ''9''" "digit_char (Suc 0) = CHR ''1''"
  by code_simp+

lemma digit_val_digit_char: "d < 10 \<Longrightarrow> digit_val (digit_char d) = d"
  by (simp add: digit_val_def digit_char_def)

lemma nat_of_string_snoc:
  "nat_of_string (s @ [c]) = 10 * nat_of_string s + digit_val c"
  by (simp add: nat_of_string_def)

lemma nat_of_string_of_nat: "nat_of_string (string_of_nat n) = n"
proof (induction n rule: string_of_nat.induct)
  case (1 n)
  show ?case
  proof (cases "n < 10")
    case True
    then show ?thesis
      by (simp add: string_of_nat.simps [of n] nat_of_string_def digit_val_digit_char)
  next
    case False
    with 1 have "nat_of_string (string_of_nat (n div 10)) = n div 10" by simp
    with False show ?thesis
      by (simp add: string_of_nat.simps [of n] nat_of_string_snoc digit_val_digit_char)
  qed
qed

lemma string_of_nat_inj: "string_of_nat m = string_of_nat n \<longleftrightarrow> m = n"
  by (metis nat_of_string_of_nat)

lemma id_ok_string_of_nat: "id_ok n (string_of_nat m) \<longleftrightarrow> m < n"
  by (simp add: id_ok_def nat_of_string_of_nat)

lemma id_ok_mono: "id_ok n i \<Longrightarrow> n \<le> m \<Longrightarrow> id_ok m i"
  by (simp add: id_ok_def)

lemma id_ok_fresh: "id_ok n i \<Longrightarrow> i \<noteq> string_of_nat n"
  by (auto simp: id_ok_def nat_of_string_of_nat)

section \<open>Searching and splicing lists\<close>

lemma findIndex_None: "findIndex P xs = None \<longleftrightarrow> (\<forall>x \<in> set xs. \<not> P x)"
  by (induction xs) auto

lemma findIndex_Some:
  "findIndex P xs = Some k \<Longrightarrow> k < length xs \<and> P (xs ! k) \<and> (\<forall>j<k. \<not> P (xs ! j))"
proof (induction xs arbitrary: k)
  case Nil
  then show ?case by simp
next
  case (Cons x xs)
  show ?case
  proof (cases "P x")
    case True
    with Cons.prems show ?thesis by simp
  next
    case False
    with Cons.prems obtain k' where k': "findIndex P xs = Some k'" "k = Suc k'"
      by auto
    from Cons.IH [OF k'(1)] False k'(2) show ?thesis
      by (auto simp: nth_Cons split: nat.splits)
  qed
qed

lemma find_findIndex: "find P xs = map_option (\<lambda>k. xs ! k) (findIndex P xs)"
  by (induction xs) (auto simp: option.map_comp comp_def)

lemma findIndex_update:
  "findIndex P xs = Some k \<Longrightarrow> P y \<Longrightarrow> findIndex P (xs[k := y]) = Some k"
proof (induction xs arbitrary: k)
  case Nil
  then show ?case by simp
next
  case (Cons x xs)
  then show ?case by (cases "P x") auto
qed

lemma splice1_filter:
  "distinct (map f xs) \<Longrightarrow> findIndex (\<lambda>x. f x = v) xs = Some k \<Longrightarrow>
   splice1 k xs = filter (\<lambda>x. f x \<noteq> v) xs"
proof (induction xs arbitrary: k)
  case Nil
  then show ?case by simp
next
  case (Cons x xs)
  show ?case
  proof (cases "f x = v")
    case True
    from True Cons.prems(2) have "k = 0" by simp
    moreover from True Cons.prems(1) have "\<forall>y \<in> set xs. f y \<noteq> v"
      by (auto simp: image_def)
    ultimately show ?thesis using True by (simp add: splice1_def)
  next
    case False
    with Cons.prems obtain k' where k': "findIndex (\<lambda>x. f x = v) xs = Some k'" "k = Suc k'"
      by auto
    from Cons.prems have "distinct (map f xs)" by simp
    from Cons.IH [OF this k'(1)] False k'(2) show ?thesis
      by (simp add: splice1_def)
  qed
qed

section \<open>What the resolvers do to the ids and the counter\<close>

lemma upd_name_rid: "upd_name nm r = Inr r' \<Longrightarrow> rid r' = rid r"
  by (cases nm) (auto split: if_splits)

lemma upd_disease_rid: "upd_disease d r = Inr r' \<Longrightarrow> rid r' = rid r"
  by (cases d) (auto split: if_splits)

lemma upd_date_rid: "upd_date h da r = Inr r' \<Longrightarrow> rid r' = rid r"
  by (cases da) (auto split: if_splits sum.splits)

lemma map_rid_put:
  "k < length (recordsData s) \<Longrightarrow> rid r = rid (recordsData s ! k) \<Longrightarrow>
   map rid (recordsData (put k r s)) = map rid (recordsData s)"
  by (simp add: put_def map_update list_update_same_conv)

lemma nextId_put: "nextId (put k r s) = nextId s"
  by (simp add: put_def)

lemma updateRecord_ids:
  "map rid (recordsData (snd (updateRecord h s i nm d da))) = map rid (recordsData s)
   \<and> nextId (snd (updateRecord h s i nm d da)) = nextId s"
proof (cases "findIndex (has_id i) (recordsData s)")
  case None
  then show ?thesis by (simp add: updateRecord_def)
next
  case (Some k)
  then have k: "k < length (recordsData s)" by (simp add: findIndex_Some)
  show ?thesis
    using Some k
    by (auto simp: updateRecord_def map_rid_put nextId_put
          dest!: upd_name_rid upd_disease_rid upd_date_rid split: sum.splits)
qed

lemma store_ok_updateRecord:
  "store_ok s \<Longrightarrow> store_ok (snd (updateRecord h s i nm d da))"
  by (simp add: store_ok_def updateRecord_ids)

lemma addRecord_cases:
  "(\<exists>e. addRecord h s nm d da = (Inl e, s)) \<or>
   (\<exists>r. rid r = string_of_nat (nextId s) \<and>
        addRecord h s nm d da =
          (Inr r, \<lparr>recordsData = recordsData s @ [r], nextId = nextId s + 1\<rparr>))"
  by (auto simp: addRecord_def Let_def split: sum.splits)

lemma ids_snoc:
  assumes "distinct ids" and "list_all (id_ok n) ids"
  shows "distinct (ids @ [string_of_nat n])"
    and "list_all (id_ok (Suc n)) (ids @ [string_of_nat n])"
proof -
  from assms(2) have "string_of_nat n \<notin> set ids"
    by (auto simp: list_all_iff dest: id_ok_fresh)
  with assms(1) show "distinct (ids @ [string_of_nat n])" by simp
  from assms(2) show "list_all (id_ok (Suc n)) (ids @ [string_of_nat n])"
    by (auto simp: list_all_iff id_ok_string_of_nat intro: id_ok_mono)
qed

lemma store_ok_snoc:
  "store_ok s \<Longrightarrow> rid r = string_of_nat (nextId s) \<Longrightarrow>
   store_ok \<lparr>recordsData = recordsData s @ [r], nextId = nextId s + 1\<rparr>"
  using ids_snoc [of "map rid (recordsData s)" "nextId s"] by (simp add: store_ok_def)

lemma store_ok_addRecord:
  "store_ok s \<Longrightarrow> store_ok (snd (addRecord h s nm d da))"
  using addRecord_cases [of h s nm d da] store_ok_snoc [of s] by auto

lemma ids_splice1:
  assumes "distinct ids" and "list_all Q ids"
  shows "distinct (splice1 k ids)" and "list_all Q (splice1 k ids)"
proof -
  have "set (take k ids) \<inter> set (drop (Suc k) ids) = {}"
    using assms(1) by (simp add: set_take_disj_set_drop_if_distinct)
  with assms(1) show "distinct (splice1 k ids)" by (simp add: splice1_def)
  from assms(2) show "list_all Q (splice1 k ids)"
    by (auto simp: splice1_def list_all_iff dest: in_set_takeD in_set_dropD)
qed

lemma map_splice1: "map f (splice1 k xs) = splice1 k (map f xs)"
  by (simp add: splice1_def take_map drop_map)

lemma store_ok_deleteRecord:
  "store_ok s \<Longrightarrow> store_ok (snd (deleteRecord s i))"
  by (auto simp: deleteRecord_def store_ok_def map_splice1 ids_splice1 split: option.splits)

lemma store_ok_exec: "store_ok s \<Longrightarrow> store_ok (snd (exec h c s))"
  by (cases c)
     (simp_all add: case_prod_unfold store_ok_addRecord store_ok_updateRecord
        store_ok_deleteRecord)

lemma nextId_deleteRecord: "nextId (snd (deleteRecord s i)) = nextId s"
  by (simp add: deleteRecord_def split: option.splits)

lemma exec_added:
  "added_ids [fst (exec h c s)] = map string_of_nat [nextId s ..< nextId (snd (exec h c s))]"
proof (cases c)
  case (AddRecord nm d da)
  with addRecord_cases [of h s nm d da] show ?thesis by auto
next
  case (UpdateRecord i nm d da)
  then show ?thesis by (simp add: case_prod_unfold updateRecord_ids)
next
  case (DeleteRecord i)
  then show ?thesis by (simp add: case_prod_unfold nextId_deleteRecord)
qed simp_all

lemma nextId_exec_mono: "nextId s \<le> nextId (snd (exec h c s))"
proof (cases c)
  case (AddRecord nm d da)
  with addRecord_cases [of h s nm d da] show ?thesis by auto
next
  case (UpdateRecord i nm d da)
  then show ?thesis by (simp add: case_prod_unfold updateRecord_ids)
next
  case (DeleteRecord i)
  then show ?thesis by (simp add: case_prod_unfold nextId_deleteRecord)
qed simp_all

lemma added_ids_Cons: "added_ids (r # rs) = added_ids [r] @ added_ids rs"
  by (cases "r # rs" rule: added_ids.cases) simp_all

lemma nextId_run_mono: "nextId s \<le> nextId (snd (run cs s))"
proof (induction cs arbitrary: s)
  case Nil
  show ?case by simp
next
  case (Cons hc cs)
  obtain h c where hc: "hc = (h, c)" by (cases hc)
  have "nextId s \<le> nextId (snd (exec h c s))" by (rule nextId_exec_mono)
  also have "\<dots> \<le> nextId (snd (run cs (snd (exec h c s))))" by (rule Cons.IH)
  finally show ?case by (simp add: hc case_prod_unfold)
qed

lemma run_added:
  "added_ids (fst (run cs s)) = map string_of_nat [nextId s ..< nextId (snd (run cs s))]"
proof (induction cs arbitrary: s)
  case Nil
  show ?case by simp
next
  case (Cons hc cs)
  obtain h c where hc: "hc = (h, c)" by (cases hc)
  let ?s1 = "snd (exec h c s)"
  let ?s2 = "snd (run cs ?s1)"
  have le: "nextId s \<le> nextId ?s1" "nextId ?s1 \<le> nextId ?s2"
    by (rule nextId_exec_mono, rule nextId_run_mono)
  have "added_ids (fst (run (hc # cs) s)) =
          added_ids [fst (exec h c s)] @ added_ids (fst (run cs ?s1))"
    by (simp add: hc case_prod_unfold) (rule added_ids_Cons)
  also have "\<dots> = map string_of_nat ([nextId s ..< nextId ?s1] @ [nextId ?s1 ..< nextId ?s2])"
    by (simp only: exec_added Cons.IH map_append)
  also have "[nextId s ..< nextId ?s1] @ [nextId ?s1 ..< nextId ?s2] = [nextId s ..< nextId ?s2]"
    using le by (metis le_Suc_ex upt_add_eq_append)
  finally show ?case by (simp add: hc case_prod_unfold)
qed

lemma store_ok_run: "store_ok s \<Longrightarrow> store_ok (snd (run cs s))"
proof (induction cs arbitrary: s)
  case Nil
  then show ?case by simp
next
  case (Cons hc cs)
  obtain h c where hc: "hc = (h, c)" by (cases hc)
  from Cons.prems have "store_ok (snd (exec h c s))" by (rule store_ok_exec)
  then have "store_ok (snd (run cs (snd (exec h c s))))" by (rule Cons.IH)
  then show ?case by (simp add: hc case_prod_unfold)
qed

lemma seed_ids: "map rid seed_records = map string_of_nat [1 ..< 21]"
  by code_simp



section \<open>Facts about the resolvers shared by the properties below\<close>

lemma store_ok_seed: "store_ok seed"
  by code_simp

lemma find_None_findIndex: "find P xs = None \<longleftrightarrow> findIndex P xs = None"
  by (simp add: find_findIndex)

lemma record_q_None: "record_q s i = None \<longleftrightarrow> js_String i \<notin> set (map rid (recordsData s))"
  by (auto simp: record_q_def find_None_iff has_id_def image_def)

lemma record_q_Some:
  "record_q s i = Some r \<Longrightarrow> r \<in> set (recordsData s) \<and> rid r = js_String i"
  by (auto simp: record_q_def find_Some_iff has_id_def)

lemma record_q_findIndex:
  "record_q s i = Some r \<longleftrightarrow>
     (\<exists>k. findIndex (has_id i) (recordsData s) = Some k \<and> recordsData s ! k = r)"
  by (auto simp: record_q_def find_findIndex)

lemma length_splice1: "k < length xs \<Longrightarrow> length (splice1 k xs) + 1 = length xs"
  by (simp add: splice1_def)

lemma put_same: "k < length (recordsData s) \<Longrightarrow> put k (recordsData s ! k) s = s"
  by (simp add: put_def)

lemma upd_name_other: "\<forall>x. v \<noteq> JStr x \<Longrightarrow> upd_name v r = Inr r"
  by (cases v) simp_all

lemma upd_disease_other: "\<forall>x. v \<noteq> JStr x \<Longrightarrow> upd_disease v r = Inr r"
  by (cases v) simp_all

lemma upd_date_other: "\<forall>x. v \<noteq> JStr x \<Longrightarrow> upd_date h v r = Inr r"
  by (cases v) simp_all

lemma isValidDate_string:
  "isValidDate h (JStr x) \<longleftrightarrow> x \<noteq> [] \<and> Date_parse h x \<noteq> None"
  by (simp add: isValidDate_def)

lemma upd_name_fails: "isl (upd_name nm r) \<longleftrightarrow> (\<exists>n. nm = JStr n \<and> js_trim n = [])"
  by (cases nm) simp_all

lemma upd_disease_fails:
  "isl (upd_disease d r) \<longleftrightarrow> (\<exists>x. d = JStr x \<and> x \<notin> set DISEASES)"
  by (cases d) simp_all

lemma upd_date_fails:
  "isl (upd_date h da r) \<longleftrightarrow> (\<exists>x. da = JStr x \<and> (x = [] \<or> Date_parse h x = None))"
  by (cases da) (auto simp: isValidDate_string Date_toISOString_def split: option.splits)

lemma disease_message_text:
  "disease_message =
     ''Disease must be one of: Bulging_Eyes, Cataracts, Crossed_Eyes, Glaucoma, Uveitis''"
  by (simp add: disease_message_def DISEASES_def)

lemma add_name_absent:
  "nm = JUndefined \<or> nm = JNull \<or> (\<exists>n. nm = JStr n \<and> js_trim n = []) \<Longrightarrow>
   add_name nm = Inl (Error ''Name is required.'')"
  by (auto simp: add_name_def)

lemma add_name_string: "js_trim n \<noteq> [] \<Longrightarrow> add_name (JStr n) = Inr (js_trim n)"
  by (auto simp: add_name_def js_trim_def)

lemma add_disease_member: "x \<in> set DISEASES \<Longrightarrow> add_disease (JStr x) = Inr x"
  by (simp add: add_disease_def)

lemma add_disease_other: "\<not> includes_DISEASES d \<Longrightarrow> add_disease d = Inl (Error disease_message)"
  by (simp add: add_disease_def)

lemma add_date_absent: "\<not> truthy da \<Longrightarrow> add_date h da = Inr (nowISO h)"
  by (simp add: add_date_def)

lemma add_date_string:
  "add_date h (JStr x) =
     Inr (case Date_parse h x of
            None \<Rightarrow> nowISO h
          | Some t \<Rightarrow> if x = [] then nowISO h else toISOString h t)"
  by (simp add: add_date_def isValidDate_string Date_toISOString_def split: option.splits)

lemma addRecord_fails_unchanged: "isl (fst (addRecord h s nm d da)) \<Longrightarrow> snd (addRecord h s nm d da) = s"
  using addRecord_cases [of h s nm d da] by auto

lemma updateRecord_found:
  assumes "findIndex (has_id i) (recordsData s) = Some k"
  shows "updateRecord h s i nm d da =
     (case upd_name nm (recordsData s ! k) of
        Inl e \<Rightarrow> (Inl e, s)
      | Inr r1 \<Rightarrow>
     (case upd_disease d r1 of
        Inl e \<Rightarrow> (Inl e, put k r1 s)
      | Inr r2 \<Rightarrow>
     (case upd_date h da r2 of
        Inl e \<Rightarrow> (Inl e, put k r2 s)
      | Inr r3 \<Rightarrow> (Inr r3, put k r3 s))))"
  by (simp add: updateRecord_def assms)

lemma updateRecord_missing:
  assumes "findIndex (has_id i) (recordsData s) = None"
  shows "updateRecord h s i nm d da =
     (Inl (Error (''Record with id '' @ js_String i @ '' not found.'')), s)"
  by (simp add: updateRecord_def assms)

lemma upd_date_bad:
  "x = [] \<or> Date_parse h x = None \<Longrightarrow>
   upd_date h (JStr x) r = Inl (Error ''dateAdded must be a valid ISO date/time.'')"
  by (auto simp: isValidDate_string)




lemma updateRecord_fails:
  "isl (fst (updateRecord h s i nm d da)) \<longleftrightarrow>
     (findIndex (has_id i) (recordsData s) = None
      \<or> (\<exists>n. nm = JStr n \<and> js_trim n = [])
      \<or> (\<exists>x. d = JStr x \<and> x \<notin> set DISEASES)
      \<or> (\<exists>x. da = JStr x \<and> (x = [] \<or> Date_parse h x = None)))"
proof (cases "findIndex (has_id i) (recordsData s)")
  case None
  then show ?thesis by (simp add: updateRecord_missing)
next
  case (Some k)
  let ?r = "recordsData s ! k"
  show ?thesis
  proof (cases "upd_name nm ?r")
    case (Inl e)
    then have "isl (upd_name nm ?r)" by simp
    with upd_name_fails [of nm ?r] have "\<exists>n. nm = JStr n \<and> js_trim n = []" by blast
    with Inl show ?thesis by (simp add: updateRecord_found [OF Some])
  next
    case r1: (Inr r1)
    then have "\<not> isl (upd_name nm ?r)" by simp
    with upd_name_fails [of nm ?r] have n1: "\<not> (\<exists>n. nm = JStr n \<and> js_trim n = [])"
      by blast
    show ?thesis
    proof (cases "upd_disease d r1")
      case (Inl e)
      then have "isl (upd_disease d r1)" by simp
      with upd_disease_fails [of d r1] have "\<exists>x. d = JStr x \<and> x \<notin> set DISEASES"
        by blast
      with Inl r1 show ?thesis by (simp add: updateRecord_found [OF Some])
    next
      case r2: (Inr r2)
      then have "\<not> isl (upd_disease d r1)" by simp
      with upd_disease_fails [of d r1]
      have n2: "\<not> (\<exists>x. d = JStr x \<and> x \<notin> set DISEASES)"
        by blast
      have "isl (fst (updateRecord h s i nm d da)) = isl (upd_date h da r2)"
        by (simp add: updateRecord_found [OF Some] r1 r2 split: sum.splits)
      moreover from Some have "findIndex (has_id i) (recordsData s) \<noteq> None" by simp
      ultimately show ?thesis using n1 n2 upd_date_fails [of h da r2] by blast
    qed
  qed
qed


lemma map_nat_of_string_of_nat: "map nat_of_string (map string_of_nat ns) = ns"
  by (induction ns) (simp_all add: nat_of_string_of_nat)

lemma distinct_map_string_of_nat: "distinct (map string_of_nat ns) = distinct ns"
  by (simp add: distinct_map inj_on_def string_of_nat_inj)

lemma string_of_nat_21: "string_of_nat 21 = ''21''"
  by (simp add: string_of_nat.simps digit_char_table)

lemma upd_name_valid:
  "\<not> (\<exists>n. nm = JStr n \<and> js_trim n = []) \<Longrightarrow>
   upd_name nm r = Inr (r\<lparr>name := (case nm of JStr n \<Rightarrow> js_trim n | _ \<Rightarrow> name r)\<rparr>)"
  by (cases nm) simp_all

lemma upd_disease_valid:
  "\<not> (\<exists>x. d = JStr x \<and> x \<notin> set DISEASES) \<Longrightarrow>
   upd_disease d r = Inr (r\<lparr>disease := (case d of JStr x \<Rightarrow> x | _ \<Rightarrow> disease r)\<rparr>)"
  by (cases d) simp_all

lemma upd_date_valid:
  "\<not> (\<exists>x. da = JStr x \<and> (x = [] \<or> Date_parse h x = None)) \<Longrightarrow>
   upd_date h da r =
     Inr (r\<lparr>dateAdded :=
            (case da of
               JStr x \<Rightarrow> (case Date_parse h x of Some t \<Rightarrow> toISOString h t | None \<Rightarrow> dateAdded r)
             | _ \<Rightarrow> dateAdded r)\<rparr>)"
  by (cases da) (auto simp: isValidDate_string Date_toISOString_def)

lemma updateRecord_valid:
  assumes k: "findIndex (has_id i) (recordsData s) = Some k"
    and nm: "\<not> (\<exists>n. nm = JStr n \<and> js_trim n = [])"
    and d: "\<not> (\<exists>x. d = JStr x \<and> x \<notin> set DISEASES)"
    and da: "\<not> (\<exists>x. da = JStr x \<and> (x = [] \<or> Date_parse h x = None))"
  shows "updateRecord h s i nm d da =
     (let r = recordsData s ! k;
          r' = r\<lparr>name := (case nm of JStr n \<Rightarrow> js_trim n | _ \<Rightarrow> name r),
                 disease := (case d of JStr x \<Rightarrow> x | _ \<Rightarrow> disease r),
                 dateAdded :=
                   (case da of
                      JStr x \<Rightarrow>
                        (case Date_parse h x of Some t \<Rightarrow> toISOString h t
                         | None \<Rightarrow> dateAdded r)
                    | _ \<Rightarrow> dateAdded r)\<rparr>
      in (Inr r', s\<lparr>recordsData := (recordsData s)[k := r']\<rparr>))"
  by (simp add: updateRecord_found [OF k] upd_name_valid [OF nm] upd_disease_valid [OF d]
        upd_date_valid [OF da] put_def Let_def
      cong: jsval.case_cong option.case_cong)

lemma record_q_after_put:
  assumes k: "findIndex (has_id i) (recordsData s) = Some k" and r: "rid r' = rid (recordsData s ! k)"
  shows "record_q (s\<lparr>recordsData := (recordsData s)[k := r']\<rparr>) i = Some r'"
proof -
  from k have klt: "k < length (recordsData s)" and has: "has_id i (recordsData s ! k)"
    by (simp_all add: findIndex_Some)
  from has r have "has_id i r'" by (simp add: has_id_def)
  with k have "findIndex (has_id i) ((recordsData s)[k := r']) = Some k"
    by (rule findIndex_update)
  with klt show ?thesis by (simp add: record_q_def find_findIndex)
qed

lemma has_id_eq: "has_id i = (\<lambda>r. rid r = js_String i)"
  by (simp add: has_id_def fun_eq_iff)

section \<open>Properties of the resolvers\<close>

text \<open>
  C1. A resolver that throws is to leave the store as it was. \<open>addRecord\<close> does
  (\<open>addRecord_fails_unchanged\<close>), and \<open>deleteRecord\<close> has no throw. \<open>updateRecord\<close>
  does not: on the seed, for id 1 with the valid name \<open>Zed\<close> and an unparseable
  \<open>dateAdded\<close>, it throws the error about \<open>dateAdded\<close> after it has written the
  name, so the record stored under id 1 is no longer the one stored before.
\<close>

theorem updateRecord_partial_write:
  "updateRecord host0 seed (JStr ''1'') (JStr ''Zed'') JUndefined (JStr ''not-a-date'') =
     (Inl (Error ''dateAdded must be a valid ISO date/time.''),
      seed\<lparr>recordsData :=
        (recordsData seed)[0 := mk ''1'' ''Zed'' ''Cataracts'' ''2025-01-05T09:10:00.000Z'']\<rparr>)
   \<and> record_q seed (JStr ''1'') =
       Some (mk ''1'' ''Aarav'' ''Cataracts'' ''2025-01-05T09:10:00.000Z'')
   \<and> record_q
        (snd (updateRecord host0 seed (JStr ''1'') (JStr ''Zed'') JUndefined
                (JStr ''not-a-date'')))
        (JStr ''1'') =
       Some (mk ''1'' ''Zed'' ''Cataracts'' ''2025-01-05T09:10:00.000Z'')
   \<and> snd (updateRecord host0 seed (JStr ''1'') (JStr ''Zed'') JUndefined
                (JStr ''not-a-date'')) \<noteq> seed"
proof -
  have f: "findIndex (has_id (JStr ''1'')) (recordsData seed) = Some 0"
    by (simp add: seed_def seed_records_def mk_def has_id_def)
  have r: "recordsData seed ! 0 = mk ''1'' ''Aarav'' ''Cataracts'' ''2025-01-05T09:10:00.000Z''"
    by (simp add: seed_def seed_records_def)
  have tr: "js_trim ''Zed'' = ''Zed''" by (simp add: js_trim_def js_whitespace_def)
  have p: "Date_parse host0 ''not-a-date'' = None" by (simp add: host0_def)
  have u: "updateRecord host0 seed (JStr ''1'') (JStr ''Zed'') JUndefined (JStr ''not-a-date'') =
     (Inl (Error ''dateAdded must be a valid ISO date/time.''),
      seed\<lparr>recordsData :=
        (recordsData seed)[0 := mk ''1'' ''Zed'' ''Cataracts'' ''2025-01-05T09:10:00.000Z'']\<rparr>)"
    by (simp add: updateRecord_found [OF f] r tr isValidDate_string p put_def mk_def)
  have q0: "record_q seed (JStr ''1'') =
       Some (mk ''1'' ''Aarav'' ''Cataracts'' ''2025-01-05T09:10:00.000Z'')"
    by (simp add: record_q_def seed_def seed_records_def mk_def has_id_def)
  have q1: "record_q
        (snd (updateRecord host0 seed (JStr ''1'') (JStr ''Zed'') JUndefined
                (JStr ''not-a-date'')))
        (JStr ''1'') =
       Some (mk ''1'' ''Zed'' ''Cataracts'' ''2025-01-05T09:10:00.000Z'')"
    unfolding u snd_conv
    by (simp add: record_q_def seed_def seed_records_def mk_def has_id_def)
  from q0 q1 have ne: "snd (updateRecord host0 seed (JStr ''1'') (JStr ''Zed'') JUndefined
                (JStr ''not-a-date'')) \<noteq> seed"
    by (auto simp: mk_def)
  from u q0 q1 ne show ?thesis by blast
qed

text \<open>
  C2. Let \<open>x\<close> be a string that \<open>Date.parse\<close> does not parse. \<open>addRecord\<close> with a
  valid name and disease and \<open>dateAdded = x\<close> succeeds, and the record it stores
  carries the clock reading in \<open>toISOString\<close> form. \<open>updateRecord\<close> with
  \<open>dateAdded = x\<close> throws in every case, and when the id exists and the other
  supplied fields are valid the error is the one about \<open>dateAdded\<close>.
\<close>

theorem unparseable_date_add_and_update:
  assumes "Date_parse h x = None"
  shows "(js_trim n \<noteq> [] \<and> dis \<in> set DISEASES \<longrightarrow>
            addRecord h s (JStr n) (JStr dis) (JStr x) =
              (Inr \<lparr>rid = string_of_nat (nextId s), name = js_trim n, disease = dis,
                     dateAdded = toISOString h (Date_now h)\<rparr>,
               \<lparr>recordsData = recordsData s @
                  [\<lparr>rid = string_of_nat (nextId s), name = js_trim n, disease = dis,
                     dateAdded = toISOString h (Date_now h)\<rparr>],
                nextId = nextId s + 1\<rparr>))
       \<and> isl (fst (updateRecord h s i nm d (JStr x)))
       \<and> (record_q s i \<noteq> None
            \<and> (\<forall>m. nm = JStr m \<longrightarrow> js_trim m \<noteq> [])
            \<and> (\<forall>y. d = JStr y \<longrightarrow> y \<in> set DISEASES) \<longrightarrow>
            fst (updateRecord h s i nm d (JStr x)) =
              Inl (Error ''dateAdded must be a valid ISO date/time.''))"
proof -
  have a: "addRecord h s (JStr n) (JStr dis) (JStr x) =
              (Inr \<lparr>rid = string_of_nat (nextId s), name = js_trim n, disease = dis,
                     dateAdded = toISOString h (Date_now h)\<rparr>,
               \<lparr>recordsData = recordsData s @
                  [\<lparr>rid = string_of_nat (nextId s), name = js_trim n, disease = dis,
                     dateAdded = toISOString h (Date_now h)\<rparr>],
                nextId = nextId s + 1\<rparr>)"
    if "js_trim n \<noteq> []" "dis \<in> set DISEASES"
    using add_name_string [OF that(1)] add_disease_member [OF that(2)] assms
    by (simp add: addRecord_def add_date_string nowISO_def Let_def)
  have b: "isl (fst (updateRecord h s i nm d (JStr x)))"
    using assms by (simp add: updateRecord_fails)
  have c: "fst (updateRecord h s i nm d (JStr x)) =
              Inl (Error ''dateAdded must be a valid ISO date/time.'')"
    if q: "record_q s i \<noteq> None" and nm: "\<forall>m. nm = JStr m \<longrightarrow> js_trim m \<noteq> []"
      and d: "\<forall>y. d = JStr y \<longrightarrow> y \<in> set DISEASES"
  proof -
    from q obtain k where k: "findIndex (has_id i) (recordsData s) = Some k"
      by (auto simp: record_q_findIndex)
    from nm upd_name_fails [of nm "recordsData s ! k"]
    obtain r1 where r1: "upd_name nm (recordsData s ! k) = Inr r1"
      by (cases "upd_name nm (recordsData s ! k)") auto
    from d upd_disease_fails [of d r1]
    obtain r2 where r2: "upd_disease d r1 = Inr r2"
      by (cases "upd_disease d r1") auto
    have "upd_date h (JStr x) r2 = Inl (Error ''dateAdded must be a valid ISO date/time.'')"
      by (rule upd_date_bad [OF disjI2, OF assms])
    with r1 r2 show ?thesis by (simp add: updateRecord_found [OF k])
  qed
  from a b c show ?thesis by blast
qed

theorem unparseable_date_add_and_update_witness:
  "Date_parse host0 ''not-a-date'' = None
   \<and> fst (addRecord host0 seed (JStr ''Test'') (JStr ''Glaucoma'') (JStr ''not-a-date'')) =
       Inr (mk ''21'' ''Test'' ''Glaucoma'' ''2025-03-01T12:00:00.000Z'')
   \<and> fst (updateRecord host0 seed (JStr ''5'') JUndefined JUndefined (JStr ''not-a-date'')) =
       Inl (Error ''dateAdded must be a valid ISO date/time.'')"
proof -
  have h: "Date_parse host0 ''not-a-date'' = None" by (simp add: host0_def)
  have tr: "js_trim ''Test'' = ''Test''" by (simp add: js_trim_def js_whitespace_def)
  have dis: "''Glaucoma'' \<in> set DISEASES" by (simp add: DISEASES_def)
  have id21: "string_of_nat (nextId seed) = ''21''"
    by (simp add: seed_def string_of_nat.simps digit_char_table)
  have now: "toISOString host0 (Date_now host0) = ''2025-03-01T12:00:00.000Z''"
    by (simp add: host0_def)
  have q: "record_q seed (JStr ''5'') \<noteq> None"
    by (simp add: record_q_def seed_def seed_records_def mk_def has_id_def)
  note t = unparseable_date_add_and_update
    [OF h, where s = seed and n = "''Test''" and dis = "''Glaucoma''" and i = "JStr ''5''"
       and nm = JUndefined and d = JUndefined, unfolded tr id21 now]
  from t dis have "fst (addRecord host0 seed (JStr ''Test'') (JStr ''Glaucoma'') (JStr ''not-a-date'')) =
       Inr (mk ''21'' ''Test'' ''Glaucoma'' ''2025-03-01T12:00:00.000Z'')"
    by (simp add: mk_def)
  moreover from t q
  have "fst (updateRecord host0 seed (JStr ''5'') JUndefined JUndefined (JStr ''not-a-date'')) =
       Inl (Error ''dateAdded must be a valid ISO date/time.'')"
    by simp
  ultimately show ?thesis using h by blast
qed

text \<open>
  C3. Take any list of requests handled from the seed, and let \<open>new\<close> be the ids
  that its successful \<open>addRecord\<close> calls returned, in order. The ids of the seed
  followed by \<open>new\<close> are the decimal numerals of 1, 2, 3, ... without a gap: they
  are pairwise different, each is greater as a number than all before it, and the
  first of \<open>new\<close> is \<open>21\<close>. This holds whatever deletions and updates the list
  contains, so an id is not handed out again after its record was deleted. The
  counter ends at 21 plus the number of new ids, and the final store is in order.
\<close>

theorem fresh_ids:
  fixes cs :: "(host \<times> call) list"
  defines "new \<equiv> added_ids (fst (run cs seed))"
  shows "map rid seed_records @ new = map string_of_nat [1 ..< 21 + length new]
       \<and> distinct (map rid seed_records @ new)
       \<and> sorted_wrt (<) (map nat_of_string (map rid seed_records @ new))
       \<and> (new = [] \<or> hd new = ''21'')
       \<and> nextId (snd (run cs seed)) = 21 + length new
       \<and> store_ok (snd (run cs seed))"
proof -
  let ?n = "nextId (snd (run cs seed))"
  have le: "21 \<le> ?n" using nextId_run_mono [of seed cs] by (simp add: seed_def)
  have new: "new = map string_of_nat [21 ..< ?n]"
    using run_added [of cs seed] by (simp add: new_def seed_def)
  with le have n: "?n = 21 + length new" by simp
  have app: "[1 ..< 21] @ [21 ..< ?n] = [1 ..< ?n]"
    using le upt_add_eq_append [of 1 21 "?n - 21"] by simp
  have "map rid seed_records @ new = map string_of_nat [1 ..< 21] @ map string_of_nat [21 ..< ?n]"
    using new by (simp only: seed_ids)
  also have "\<dots> = map string_of_nat [1 ..< ?n]"
    by (simp only: app flip: map_append)
  finally have all: "map rid seed_records @ new = map string_of_nat [1 ..< 21 + length new]"
    using n by simp
  have d: "distinct (map rid seed_records @ new)"
    by (simp only: all distinct_map_string_of_nat distinct_upt)
  have s: "sorted_wrt (<) (map nat_of_string (map rid seed_records @ new))"
    by (simp only: all map_nat_of_string_of_nat sorted_wrt_upt)
  have h: "new = [] \<or> hd new = ''21''"
  proof (cases "new = []")
    case False
    with n have "21 < ?n" by simp
    then have "[21 ..< ?n] = 21 # [22 ..< ?n]" by (simp add: upt_conv_Cons)
    with new show ?thesis by (simp add: string_of_nat_21)
  qed simp
  have ok: "store_ok (snd (run cs seed))"
    by (rule store_ok_run [OF store_ok_seed])
  from all d s h n ok show ?thesis by blast
qed

theorem fresh_ids_witness:
  "added_ids (fst (run requests0 seed)) = [''21'', ''22'']
   \<and> distinct (map rid seed_records @ [''21'', ''22''])
   \<and> nextId (snd (run requests0 seed)) = 23"
proof -
  have ev: "added_ids (fst (run requests0 seed)) = [''21'', ''22'']"
    by code_simp
  have l: "21 + length [''21'', ''22''] = (23::nat)" by simp
  from fresh_ids [of requests0, unfolded ev l] ev show ?thesis by blast
qed

text \<open>
  C4. For an id that no stored record has, \<open>deleteRecord\<close> does not throw (its result
  type has no error): it returns \<open>success = false\<close>, \<open>removed = null\<close> and the
  message \<open>Record with id <id> not found.\<close>, and the store, hence the collection and
  its size, is as before.
\<close>

theorem deleteRecord_missing:
  assumes "js_String i \<notin> set (map rid (recordsData s))"
  shows "deleteRecord s i =
           (\<lparr>success = False,
             message = ''Record with id '' @ js_String i @ '' not found.'',
             removed = None\<rparr>, s)
         \<and> records (snd (deleteRecord s i)) = records s
         \<and> length (records (snd (deleteRecord s i))) = length (records s)"
proof -
  from assms have "findIndex (has_id i) (recordsData s) = None"
    by (auto simp: findIndex_None has_id_def image_def)
  then show ?thesis by (simp add: deleteRecord_def)
qed

theorem deleteRecord_missing_witness:
  "js_String (JStr ''999'') \<notin> set (map rid (recordsData seed))
   \<and> deleteRecord seed (JStr ''999'') =
       (\<lparr>success = False, message = ''Record with id 999 not found.'', removed = None\<rparr>,
        seed)"
proof -
  have h: "js_String (JStr ''999'') \<notin> set (map rid (recordsData seed))"
    by (simp add: seed_def seed_records_def mk_def)
  from deleteRecord_missing [OF h] h show ?thesis by simp
qed

text \<open>
  C5. Every store reached from the seed is in order (\<open>store_ok_seed\<close>,
  \<open>store_ok_run\<close>). On a store in order, for an id that the record query finds as \<open>r\<close>,
  \<open>deleteRecord\<close> returns \<open>success = true\<close> with \<open>r\<close> attached; the collection
  afterwards is the old one without the record of that id, which is the old one
  without \<open>r\<close>: the other records are as they were, in their order, \<open>r\<close> is not
  among them, the query for the id finds nothing, and the size is one less.
\<close>

theorem deleteRecord_present:
  assumes ok: "store_ok s" and found: "record_q s i = Some r"
  shows "deleteRecord s i =
           (\<lparr>success = True,
             message = ''Record '' @ js_String i @ '' deleted successfully.'',
             removed = Some r\<rparr>,
            s\<lparr>recordsData := filter (\<lambda>x. rid x \<noteq> rid r) (recordsData s)\<rparr>)
         \<and> r \<in> set (records s) \<and> rid r = js_String i
         \<and> r \<notin> set (records (snd (deleteRecord s i)))
         \<and> record_q (snd (deleteRecord s i)) i = None
         \<and> length (records (snd (deleteRecord s i))) + 1 = length (records s)
         \<and> records (snd (deleteRecord s i)) = filter (\<lambda>x. x \<noteq> r) (records s)"
proof -
  let ?xs = "recordsData s"
  from found obtain k where k: "findIndex (has_id i) ?xs = Some k" "?xs ! k = r"
    by (auto simp: record_q_findIndex)
  from k(1) have klt: "k < length ?xs" by (simp add: findIndex_Some)
  from found have r: "r \<in> set ?xs" "rid r = js_String i" by (auto dest: record_q_Some)
  from ok have dist: "distinct (map rid ?xs)" by (simp add: store_ok_def)
  have "has_id i = (\<lambda>x. rid x = rid r)" by (simp add: has_id_def fun_eq_iff r(2))
  with k(1) have "findIndex (\<lambda>x. rid x = rid r) ?xs = Some k" by simp
  with dist have sp: "splice1 k ?xs = filter (\<lambda>x. rid x \<noteq> rid r) ?xs"
    by (rule splice1_filter)
  have del: "deleteRecord s i =
           (\<lparr>success = True,
             message = ''Record '' @ js_String i @ '' deleted successfully.'',
             removed = Some r\<rparr>,
            s\<lparr>recordsData := filter (\<lambda>x. rid x \<noteq> rid r) ?xs\<rparr>)"
    by (simp add: deleteRecord_def k sp)
  have same: "filter (\<lambda>x. rid x \<noteq> rid r) ?xs = filter (\<lambda>x. x \<noteq> r) ?xs"
  proof (rule filter_cong [OF refl])
    fix x assume "x \<in> set ?xs"
    with dist r(1) show "(rid x \<noteq> rid r) = (x \<noteq> r)"
      by (auto simp: distinct_map dest: inj_onD)
  qed
  let ?s' = "snd (deleteRecord s i)"
  have sd: "recordsData ?s' = filter (\<lambda>x. rid x \<noteq> rid r) ?xs" by (simp add: del)
  have c1: "r \<in> set (recordsData s)" by (rule r(1))
  have c2: "r \<notin> set (recordsData ?s')" by (simp add: sd)
  have c3: "record_q ?s' i = None"
    unfolding record_q_None sd r(2) [symmetric] by auto
  have c4: "length (recordsData ?s') + 1 = length (recordsData s)"
    using length_splice1 [OF klt] by (simp add: sd sp)
  have c5: "recordsData ?s' = filter (\<lambda>x. x \<noteq> r) (recordsData s)"
    by (simp only: sd same)
  from del c1 r(2) c2 c3 c4 c5 show ?thesis unfolding records_def by blast
qed

theorem deleteRecord_present_witness:
  "store_ok seed
   \<and> record_q seed (JStr ''5'') =
       Some (mk ''5'' ''Neha'' ''Bulging_Eyes'' ''2025-01-09T12:30:00.000Z'')
   \<and> fst (deleteRecord seed (JStr ''5'')) =
       \<lparr>success = True, message = ''Record 5 deleted successfully.'',
        removed = Some (mk ''5'' ''Neha'' ''Bulging_Eyes'' ''2025-01-09T12:30:00.000Z'')\<rparr>
   \<and> length (records (snd (deleteRecord seed (JStr ''5'')))) + 1 = length (records seed)"
proof -
  have h: "record_q seed (JStr ''5'') =
       Some (mk ''5'' ''Neha'' ''Bulging_Eyes'' ''2025-01-09T12:30:00.000Z'')"
    by (simp add: record_q_def seed_def seed_records_def mk_def has_id_def)
  note t = deleteRecord_present [OF store_ok_seed h]
  from t have "fst (deleteRecord seed (JStr ''5'')) =
       \<lparr>success = True, message = ''Record 5 deleted successfully.'',
        removed = Some (mk ''5'' ''Neha'' ''Bulging_Eyes'' ''2025-01-09T12:30:00.000Z'')\<rparr>"
    by simp
  moreover from t
  have "length (records (snd (deleteRecord seed (JStr ''5'')))) + 1 = length (records seed)"
    by blast
  ultimately show ?thesis using h store_ok_seed by blast
qed



text \<open>
  C7. \<open>updateRecord\<close> throws exactly when the id matches no stored record, or the
  name is a string that trims to empty, or the disease is a string outside
  \<open>DISEASES\<close>, or \<open>dateAdded\<close> is a string that is empty or that \<open>Date.parse\<close>
  does not parse. When the id matches no stored record the error is the one that
  names the id, and the store is unchanged. When the id designates the record at
  index \<open>k\<close> and none of the three fields is at fault, it returns that record with
  every field supplied as a string put in (the name trimmed, the date in
  \<open>toISOString\<close> form of the parsed time) and the other fields as before, writes
  it at \<open>k\<close>, and the record query for the id finds it afterwards.
\<close>

theorem updateRecord_fails_exactly_when:
  "(isl (fst (updateRecord h s i nm d da)) \<longleftrightarrow>
      (record_q s i = None
       \<or> (\<exists>n. nm = JStr n \<and> js_trim n = [])
       \<or> (\<exists>x. d = JStr x \<and> x \<notin> set DISEASES)
       \<or> (\<exists>x. da = JStr x \<and> (x = [] \<or> Date_parse h x = None))))
   \<and> (record_q s i = None \<longrightarrow>
        updateRecord h s i nm d da =
          (Inl (Error (''Record with id '' @ js_String i @ '' not found.'')), s))
   \<and> (\<forall>k. findIndex (has_id i) (recordsData s) = Some k
          \<and> \<not> (\<exists>n. nm = JStr n \<and> js_trim n = [])
          \<and> \<not> (\<exists>x. d = JStr x \<and> x \<notin> set DISEASES)
          \<and> \<not> (\<exists>x. da = JStr x \<and> (x = [] \<or> Date_parse h x = None)) \<longrightarrow>
        (let r = recordsData s ! k;
             r' = r\<lparr>name := (case nm of JStr n \<Rightarrow> js_trim n | _ \<Rightarrow> name r),
                    disease := (case d of JStr x \<Rightarrow> x | _ \<Rightarrow> disease r),
                    dateAdded :=
                      (case da of
                         JStr x \<Rightarrow>
                           (case Date_parse h x of Some t \<Rightarrow> toISOString h t
                            | None \<Rightarrow> dateAdded r)
                       | _ \<Rightarrow> dateAdded r)\<rparr>
         in updateRecord h s i nm d da =
              (Inr r', s\<lparr>recordsData := (recordsData s)[k := r']\<rparr>)
            \<and> record_q (snd (updateRecord h s i nm d da)) i = Some r'))"
proof -
  have q: "record_q s i = None \<longleftrightarrow> findIndex (has_id i) (recordsData s) = None"
    by (simp add: record_q_def find_None_findIndex)
  have a: "isl (fst (updateRecord h s i nm d da)) \<longleftrightarrow>
      (record_q s i = None
       \<or> (\<exists>n. nm = JStr n \<and> js_trim n = [])
       \<or> (\<exists>x. d = JStr x \<and> x \<notin> set DISEASES)
       \<or> (\<exists>x. da = JStr x \<and> (x = [] \<or> Date_parse h x = None)))"
    using updateRecord_fails [of h s i nm d da] q by blast
  have b: "updateRecord h s i nm d da =
          (Inl (Error (''Record with id '' @ js_String i @ '' not found.'')), s)"
    if "record_q s i = None"
    using that q by (simp add: updateRecord_missing)
  have c: "let r = recordsData s ! k;
             r' = r\<lparr>name := (case nm of JStr n \<Rightarrow> js_trim n | _ \<Rightarrow> name r),
                    disease := (case d of JStr x \<Rightarrow> x | _ \<Rightarrow> disease r),
                    dateAdded :=
                      (case da of
                         JStr x \<Rightarrow>
                           (case Date_parse h x of Some t \<Rightarrow> toISOString h t
                            | None \<Rightarrow> dateAdded r)
                       | _ \<Rightarrow> dateAdded r)\<rparr>
         in updateRecord h s i nm d da =
              (Inr r', s\<lparr>recordsData := (recordsData s)[k := r']\<rparr>)
            \<and> record_q (snd (updateRecord h s i nm d da)) i = Some r'"
    if k: "findIndex (has_id i) (recordsData s) = Some k"
      and nm: "\<not> (\<exists>n. nm = JStr n \<and> js_trim n = [])"
      and d: "\<not> (\<exists>x. d = JStr x \<and> x \<notin> set DISEASES)"
      and da: "\<not> (\<exists>x. da = JStr x \<and> (x = [] \<or> Date_parse h x = None))"
    for k
    using updateRecord_valid [OF k nm d da]
    by (simp add: Let_def record_q_after_put [OF k])
  from a b c show ?thesis by blast
qed

theorem updateRecord_fails_exactly_when_witness:
  "isl (fst (updateRecord host0 seed (JStr ''999'') JUndefined JUndefined JUndefined))
   \<and> isl (fst (updateRecord host0 seed (JStr ''5'') (JStr ''  '') JUndefined JUndefined))
   \<and> isl (fst (updateRecord host0 seed (JStr ''5'') JUndefined (JStr ''Myopia'') JUndefined))
   \<and> isl (fst (updateRecord host0 seed (JStr ''5'') JUndefined JUndefined (JStr ''not-a-date'')))
   \<and> updateRecord host0 seed (JStr ''5'') (JStr '' Nia '') (JStr ''Uveitis'')
        (JStr ''2025-02-01T00:00:00.000Z'') =
       (Inr (mk ''5'' ''Nia'' ''Uveitis'' ''2025-02-01T00:00:00.000Z''),
        seed\<lparr>recordsData :=
          (recordsData seed)[4 := mk ''5'' ''Nia'' ''Uveitis'' ''2025-02-01T00:00:00.000Z'']\<rparr>)
   \<and> record_q
        (snd (updateRecord host0 seed (JStr ''5'') (JStr '' Nia '') (JStr ''Uveitis'')
               (JStr ''2025-02-01T00:00:00.000Z'')))
        (JStr ''5'') =
       Some (mk ''5'' ''Nia'' ''Uveitis'' ''2025-02-01T00:00:00.000Z'')"
proof -
  have q: "record_q seed (JStr ''999'') = None"
    by (simp add: record_q_def seed_def seed_records_def mk_def has_id_def)
  have f: "findIndex (has_id (JStr ''5'')) (recordsData seed) = Some 4"
    by (simp add: seed_def seed_records_def mk_def has_id_def)
  have r: "recordsData seed ! 4 = mk ''5'' ''Neha'' ''Bulging_Eyes'' ''2025-01-09T12:30:00.000Z''"
    by (simp add: seed_def seed_records_def)
  have tr: "js_trim ''  '' = []" "js_trim '' Nia '' = ''Nia''"
    by (simp_all add: js_trim_def js_whitespace_def)
  have dis: "''Myopia'' \<notin> set DISEASES" "''Uveitis'' \<in> set DISEASES"
    by (simp_all add: DISEASES_def)
  have p: "Date_parse host0 ''not-a-date'' = None"
    "Date_parse host0 ''2025-02-01T00:00:00.000Z'' = Some 1738368000000"
    "toISOString host0 1738368000000 = ''2025-02-01T00:00:00.000Z''"
    by (simp_all add: host0_def)
  note t = updateRecord_fails_exactly_when [where h = host0 and s = seed]
  note t1 = t [THEN conjunct1]
  from t1 [of "JStr ''999''" JUndefined JUndefined JUndefined] q
  have a: "isl (fst (updateRecord host0 seed (JStr ''999'') JUndefined JUndefined JUndefined))"
    by blast
  from t1 [of "JStr ''5''" "JStr ''  ''" JUndefined JUndefined] tr(1)
  have b: "isl (fst (updateRecord host0 seed (JStr ''5'') (JStr ''  '') JUndefined JUndefined))"
    by blast
  from t1 [of "JStr ''5''" JUndefined "JStr ''Myopia''" JUndefined] dis(1)
  have c: "isl (fst (updateRecord host0 seed (JStr ''5'') JUndefined (JStr ''Myopia'') JUndefined))"
    by blast
  from t1 [of "JStr ''5''" JUndefined JUndefined "JStr ''not-a-date''"] p(1)
  have d: "isl (fst (updateRecord host0 seed (JStr ''5'') JUndefined JUndefined (JStr ''not-a-date'')))"
    by blast
  note t3 = t [where i = "JStr ''5''" and nm = "JStr '' Nia ''" and d = "JStr ''Uveitis''"
      and da = "JStr ''2025-02-01T00:00:00.000Z''",
    THEN conjunct2, THEN conjunct2, rule_format, of 4]
  from t3 f tr(2) dis(2) p(2,3)
  have e: "updateRecord host0 seed (JStr ''5'') (JStr '' Nia '') (JStr ''Uveitis'')
        (JStr ''2025-02-01T00:00:00.000Z'') =
       (Inr (mk ''5'' ''Nia'' ''Uveitis'' ''2025-02-01T00:00:00.000Z''),
        seed\<lparr>recordsData :=
          (recordsData seed)[4 := mk ''5'' ''Nia'' ''Uveitis'' ''2025-02-01T00:00:00.000Z'']\<rparr>)"
    by (simp add: Let_def r mk_def)
  have g: "record_q
        (snd (updateRecord host0 seed (JStr ''5'') (JStr '' Nia '') (JStr ''Uveitis'')
               (JStr ''2025-02-01T00:00:00.000Z'')))
        (JStr ''5'') =
       Some (mk ''5'' ''Nia'' ''Uveitis'' ''2025-02-01T00:00:00.000Z'')"
    unfolding e snd_conv
    by (simp add: record_q_def seed_def seed_records_def mk_def has_id_def)
  from a b c d e g show ?thesis by blast
qed

text \<open>
  C8. \<open>addRecord\<close> throws \<open>Name is required.\<close> when the name is absent
  (\<open>undefined\<close> or \<open>null\<close>) or a string that trims to empty. It throws when the
  disease is not an element of \<open>DISEASES\<close>, and with a valid name the message of
  that error lists the five values. A throw leaves the store as it was. With a
  valid name, a disease of \<open>DISEASES\<close> and a \<open>dateAdded\<close> that is absent or a
  string, it appends a record whose name is the trimmed name and whose id is the
  numeral of the counter, and steps the counter.
\<close>

theorem addRecord_validation:
  "(nm = JUndefined \<or> nm = JNull \<or> (\<exists>n. nm = JStr n \<and> js_trim n = [])
      \<longrightarrow> addRecord h s nm d da = (Inl (Error ''Name is required.''), s))
   \<and> (\<not> includes_DISEASES d
      \<longrightarrow> isl (fst (addRecord h s nm d da)) \<and> snd (addRecord h s nm d da) = s)
   \<and> (js_trim n \<noteq> [] \<and> \<not> includes_DISEASES d
      \<longrightarrow> addRecord h s (JStr n) d da =
            (Inl (Error ''Disease must be one of: Bulging_Eyes, Cataracts, Crossed_Eyes, Glaucoma, Uveitis''), s))
   \<and> (js_trim n \<noteq> [] \<and> x \<in> set DISEASES \<and> (da = JUndefined \<or> da = JNull \<or> (\<exists>t. da = JStr t))
      \<longrightarrow> (\<exists>date. addRecord h s (JStr n) (JStr x) da =
            (Inr \<lparr>rid = string_of_nat (nextId s), name = js_trim n, disease = x, dateAdded = date\<rparr>,
             \<lparr>recordsData = recordsData s @
                [\<lparr>rid = string_of_nat (nextId s), name = js_trim n, disease = x, dateAdded = date\<rparr>],
              nextId = nextId s + 1\<rparr>)))
   \<and> set DISEASES = {''Bulging_Eyes'', ''Cataracts'', ''Crossed_Eyes'', ''Glaucoma'', ''Uveitis''}"
proof -
  have a: "addRecord h s nm d da = (Inl (Error ''Name is required.''), s)"
    if "nm = JUndefined \<or> nm = JNull \<or> (\<exists>n. nm = JStr n \<and> js_trim n = [])"
    using add_name_absent [OF that] by (simp add: addRecord_def)
  have b: "isl (fst (addRecord h s nm d da)) \<and> snd (addRecord h s nm d da) = s"
    if "\<not> includes_DISEASES d"
    using add_disease_other [OF that] by (simp add: addRecord_def split: sum.splits)
  have c: "addRecord h s (JStr n) d da =
            (Inl (Error ''Disease must be one of: Bulging_Eyes, Cataracts, Crossed_Eyes, Glaucoma, Uveitis''), s)"
    if "js_trim n \<noteq> []" "\<not> includes_DISEASES d"
    using add_name_string [OF that(1)] add_disease_other [OF that(2)]
    by (simp add: addRecord_def disease_message_text)
  have e: "\<exists>date. addRecord h s (JStr n) (JStr x) da =
            (Inr \<lparr>rid = string_of_nat (nextId s), name = js_trim n, disease = x, dateAdded = date\<rparr>,
             \<lparr>recordsData = recordsData s @
                [\<lparr>rid = string_of_nat (nextId s), name = js_trim n, disease = x, dateAdded = date\<rparr>],
              nextId = nextId s + 1\<rparr>)"
    if "js_trim n \<noteq> []" "x \<in> set DISEASES" "da = JUndefined \<or> da = JNull \<or> (\<exists>t. da = JStr t)"
  proof -
    from that(3) obtain date where "add_date h da = Inr date"
      using add_date_string [of h] add_date_absent [of da h] by auto
    with add_name_string [OF that(1)] add_disease_member [OF that(2)]
    show ?thesis by (simp add: addRecord_def Let_def)
  qed
  have f: "set DISEASES = {''Bulging_Eyes'', ''Cataracts'', ''Crossed_Eyes'', ''Glaucoma'', ''Uveitis''}"
    by (simp add: DISEASES_def)
  from a b c e f show ?thesis by blast
qed

theorem addRecord_validation_witness:
  "addRecord host0 seed (JStr ''   '') (JStr ''Glaucoma'') JUndefined =
     (Inl (Error ''Name is required.''), seed)
   \<and> addRecord host0 seed (JStr ''Test'') (JStr ''InvalidDisease'') JUndefined =
     (Inl (Error ''Disease must be one of: Bulging_Eyes, Cataracts, Crossed_Eyes, Glaucoma, Uveitis''), seed)
   \<and> fst (addRecord host0 seed (JStr '' Test '') (JStr ''Glaucoma'') JUndefined) =
     Inr (mk ''21'' ''Test'' ''Glaucoma'' ''2025-03-01T12:00:00.000Z'')
   \<and> length (recordsData (snd (addRecord host0 seed (JStr '' Test '') (JStr ''Glaucoma'') JUndefined))) = 21"
proof -
  have tr: "js_trim ''   '' = []" "js_trim ''Test'' = ''Test''" "js_trim '' Test '' = ''Test''"
    by (simp_all add: js_trim_def js_whitespace_def)
  have dis: "\<not> includes_DISEASES (JStr ''InvalidDisease'')" "''Glaucoma'' \<in> set DISEASES"
    by (simp_all add: DISEASES_def)
  have id21: "string_of_nat (nextId seed) = ''21''" 
    by (simp add: seed_def string_of_nat.simps digit_char_table)
  have now: "add_date host0 JUndefined = Inr ''2025-03-01T12:00:00.000Z''"
    by (simp add: add_date_def nowISO_def host0_def)
  have len: "length (recordsData seed) = 20" by (simp add: seed_def seed_records_def)
  note t = addRecord_validation
    [where h = host0 and s = seed and da = JUndefined and x = "''Glaucoma''"]
  note t1 = t [where nm = "JStr ''   ''" and d = "JStr ''Glaucoma''", THEN conjunct1]
  note t2 = t [where d = "JStr ''InvalidDisease''" and n = "''Test''",
    THEN conjunct2, THEN conjunct2, THEN conjunct1]
  note t3 = t [where n = "'' Test ''",
    THEN conjunct2, THEN conjunct2, THEN conjunct2, THEN conjunct1, unfolded tr id21]
  from t1 tr(1) have a: "addRecord host0 seed (JStr ''   '') (JStr ''Glaucoma'') JUndefined =
     (Inl (Error ''Name is required.''), seed)" by blast
  from t2 tr(2) dis(1) have b: "addRecord host0 seed (JStr ''Test'') (JStr ''InvalidDisease'') JUndefined =
     (Inl (Error ''Disease must be one of: Bulging_Eyes, Cataracts, Crossed_Eyes, Glaucoma, Uveitis''), seed)"
    by simp
  from t3 dis(2) obtain date where
    c: "addRecord host0 seed (JStr '' Test '') (JStr ''Glaucoma'') JUndefined =
          (Inr \<lparr>rid = ''21'', name = ''Test'', disease = ''Glaucoma'', dateAdded = date\<rparr>,
             \<lparr>recordsData = recordsData seed @
                [\<lparr>rid = ''21'', name = ''Test'', disease = ''Glaucoma'', dateAdded = date\<rparr>],
              nextId = nextId seed + 1\<rparr>)"
    by auto
  have "fst (addRecord host0 seed (JStr '' Test '') (JStr ''Glaucoma'') JUndefined) =
     Inr \<lparr>rid = ''21'', name = ''Test'', disease = ''Glaucoma'',
          dateAdded = ''2025-03-01T12:00:00.000Z''\<rparr>"
    by (simp add: addRecord_def add_name_string tr add_disease_member dis now id21 Let_def)
  with c have "date = ''2025-03-01T12:00:00.000Z''" by simp
  with c have c': "fst (addRecord host0 seed (JStr '' Test '') (JStr ''Glaucoma'') JUndefined) =
     Inr (mk ''21'' ''Test'' ''Glaucoma'' ''2025-03-01T12:00:00.000Z'')"
    and c'': "length (recordsData (snd (addRecord host0 seed (JStr '' Test '') (JStr ''Glaucoma'') JUndefined))) = 21"
    by (simp_all add: mk_def len)
  from a b c' c'' show ?thesis by blast
qed

text \<open>
  C9. Every resolver that takes an id compares the stored ids with \<open>String(id)\<close>,
  and a safe integer prints as its decimal numeral. The record query is the first
  stored record whose id is \<open>String(id)\<close>, \<open>null\<close> when there is none; it has no
  error result. When no stored record has the id \<open>String(id)\<close>, \<open>updateRecord\<close>
  throws the not-found error and \<open>deleteRecord\<close> returns the not-found result, both
  with the store unchanged. When the first such record is at index \<open>k\<close>, that
  record is the one the query returns, the one \<open>deleteRecord\<close> takes out and
  attaches, and the one \<open>updateRecord\<close> returns, rewrites and stores at \<open>k\<close>. Each
  resolver gives on \<open>id\<close> what it gives on the string \<open>String(id)\<close>.
\<close>

theorem id_coerced_to_string:
  "record_q s i = find (\<lambda>r. rid r = js_String i) (recordsData s)
   \<and> js_String (JNum n) = string_of_int (int_of_safe n)
   \<and> (js_String i \<notin> set (map rid (recordsData s)) \<longrightarrow>
        record_q s i = None
      \<and> updateRecord h s i nm d da =
          (Inl (Error (''Record with id '' @ js_String i @ '' not found.'')), s)
      \<and> deleteRecord s i =
          (\<lparr>success = False,
            message = ''Record with id '' @ js_String i @ '' not found.'',
            removed = None\<rparr>, s))
   \<and> (\<forall>k. findIndex (\<lambda>r. rid r = js_String i) (recordsData s) = Some k \<longrightarrow>
        rid (recordsData s ! k) = js_String i
      \<and> record_q s i = Some (recordsData s ! k)
      \<and> deleteRecord s i =
          (\<lparr>success = True,
            message = ''Record '' @ js_String i @ '' deleted successfully.'',
            removed = Some (recordsData s ! k)\<rparr>,
           s\<lparr>recordsData := take k (recordsData s) @ drop (Suc k) (recordsData s)\<rparr>)
      \<and> updateRecord h s i JUndefined JUndefined JUndefined = (Inr (recordsData s ! k), s)
      \<and> (\<not> (\<exists>x. nm = JStr x \<and> js_trim x = [])
          \<and> \<not> (\<exists>x. d = JStr x \<and> x \<notin> set DISEASES)
          \<and> \<not> (\<exists>x. da = JStr x \<and> (x = [] \<or> Date_parse h x = None)) \<longrightarrow>
          (let r = recordsData s ! k;
               r' = r\<lparr>name := (case nm of JStr x \<Rightarrow> js_trim x | _ \<Rightarrow> name r),
                      disease := (case d of JStr x \<Rightarrow> x | _ \<Rightarrow> disease r),
                      dateAdded :=
                        (case da of
                           JStr x \<Rightarrow>
                             (case Date_parse h x of Some t \<Rightarrow> toISOString h t
                              | None \<Rightarrow> dateAdded r)
                         | _ \<Rightarrow> dateAdded r)\<rparr>
           in updateRecord h s i nm d da =
                (Inr r', s\<lparr>recordsData := (recordsData s)[k := r']\<rparr>))))
   \<and> record_q s i = record_q s (JStr (js_String i))
   \<and> updateRecord h s i nm d da = updateRecord h s (JStr (js_String i)) nm d da
   \<and> deleteRecord s i = deleteRecord s (JStr (js_String i))"
proof -
  let ?xs = "recordsData s"
  have same: "has_id (JStr (js_String i)) = has_id i"
    by (simp add: has_id_def fun_eq_iff)
  have g1: "record_q s i = record_q s (JStr (js_String i))"
    by (simp add: record_q_def same)
  have g2: "updateRecord h s i nm d da = updateRecord h s (JStr (js_String i)) nm d da"
    by (simp add: updateRecord_def same cong: option.case_cong)
  have g3: "deleteRecord s i = deleteRecord s (JStr (js_String i))"
    by (simp add: deleteRecord_def same cong: option.case_cong)
  have a: "record_q s i = find (\<lambda>r. rid r = js_String i) ?xs"
    by (simp add: record_q_def has_id_eq)
  have b: "js_String (JNum n) = string_of_int (int_of_safe n)" by simp
  have c: "record_q s i = None
      \<and> updateRecord h s i nm d da =
          (Inl (Error (''Record with id '' @ js_String i @ '' not found.'')), s)
      \<and> deleteRecord s i =
          (\<lparr>success = False,
            message = ''Record with id '' @ js_String i @ '' not found.'',
            removed = None\<rparr>, s)"
    if "js_String i \<notin> set (map rid ?xs)"
  proof -
    from that record_q_None [of s i] have q: "record_q s i = None" by blast
    then have f: "findIndex (has_id i) ?xs = None"
      by (simp add: record_q_def find_None_findIndex)
    from q f show ?thesis by (simp add: updateRecord_missing deleteRecord_def)
  qed
  have e: "rid (?xs ! k) = js_String i
      \<and> record_q s i = Some (?xs ! k)
      \<and> deleteRecord s i =
          (\<lparr>success = True,
            message = ''Record '' @ js_String i @ '' deleted successfully.'',
            removed = Some (?xs ! k)\<rparr>,
           s\<lparr>recordsData := take k ?xs @ drop (Suc k) ?xs\<rparr>)
      \<and> updateRecord h s i JUndefined JUndefined JUndefined = (Inr (?xs ! k), s)
      \<and> (\<not> (\<exists>x. nm = JStr x \<and> js_trim x = [])
          \<and> \<not> (\<exists>x. d = JStr x \<and> x \<notin> set DISEASES)
          \<and> \<not> (\<exists>x. da = JStr x \<and> (x = [] \<or> Date_parse h x = None)) \<longrightarrow>
          (let r = ?xs ! k;
               r' = r\<lparr>name := (case nm of JStr x \<Rightarrow> js_trim x | _ \<Rightarrow> name r),
                      disease := (case d of JStr x \<Rightarrow> x | _ \<Rightarrow> disease r),
                      dateAdded :=
                        (case da of
                           JStr x \<Rightarrow>
                             (case Date_parse h x of Some t \<Rightarrow> toISOString h t
                              | None \<Rightarrow> dateAdded r)
                         | _ \<Rightarrow> dateAdded r)\<rparr>
           in updateRecord h s i nm d da =
                (Inr r', s\<lparr>recordsData := ?xs[k := r']\<rparr>)))"
    if "findIndex (\<lambda>r. rid r = js_String i) ?xs = Some k" for k
  proof -
    from that have k: "findIndex (has_id i) ?xs = Some k" by (simp add: has_id_eq)
    from k have klt: "k < length ?xs" and has: "has_id i (?xs ! k)"
      by (simp_all add: findIndex_Some)
    from has have e1: "rid (?xs ! k) = js_String i" by (simp add: has_id_def)
    from k have e2: "record_q s i = Some (?xs ! k)" by (simp add: record_q_findIndex)
    from k have e3: "deleteRecord s i =
          (\<lparr>success = True,
            message = ''Record '' @ js_String i @ '' deleted successfully.'',
            removed = Some (?xs ! k)\<rparr>,
           s\<lparr>recordsData := take k ?xs @ drop (Suc k) ?xs\<rparr>)"
      by (simp add: deleteRecord_def splice1_def)
    have e4: "updateRecord h s i JUndefined JUndefined JUndefined = (Inr (?xs ! k), s)"
      using put_same [OF klt] by (simp add: updateRecord_found [OF k])
    have e5: "\<not> (\<exists>x. nm = JStr x \<and> js_trim x = [])
          \<and> \<not> (\<exists>x. d = JStr x \<and> x \<notin> set DISEASES)
          \<and> \<not> (\<exists>x. da = JStr x \<and> (x = [] \<or> Date_parse h x = None)) \<longrightarrow>
          (let r = ?xs ! k;
               r' = r\<lparr>name := (case nm of JStr x \<Rightarrow> js_trim x | _ \<Rightarrow> name r),
                      disease := (case d of JStr x \<Rightarrow> x | _ \<Rightarrow> disease r),
                      dateAdded :=
                        (case da of
                           JStr x \<Rightarrow>
                             (case Date_parse h x of Some t \<Rightarrow> toISOString h t
                              | None \<Rightarrow> dateAdded r)
                         | _ \<Rightarrow> dateAdded r)\<rparr>
           in updateRecord h s i nm d da =
                (Inr r', s\<lparr>recordsData := ?xs[k := r']\<rparr>))"
      using updateRecord_valid [OF k, of nm d da h] by (simp add: Let_def)
    from e1 e2 e3 e4 e5 show ?thesis by (intro conjI)
  qed
  from a b c e g1 g2 g3 show ?thesis by blast
qed

theorem id_coerced_to_string_witness:
  "record_q seed (JNum (safe_integer_of 5)) =
     Some (mk ''5'' ''Neha'' ''Bulging_Eyes'' ''2025-01-09T12:30:00.000Z'')
   \<and> deleteRecord seed (JNum (safe_integer_of 5)) =
       (\<lparr>success = True, message = ''Record 5 deleted successfully.'',
         removed = Some (mk ''5'' ''Neha'' ''Bulging_Eyes'' ''2025-01-09T12:30:00.000Z'')\<rparr>,
        seed\<lparr>recordsData := take 4 (recordsData seed) @ drop 5 (recordsData seed)\<rparr>)
   \<and> updateRecord host0 seed (JNum (safe_integer_of 5)) (JStr '' Nia '') JUndefined JUndefined =
       (Inr (mk ''5'' ''Nia'' ''Bulging_Eyes'' ''2025-01-09T12:30:00.000Z''),
        seed\<lparr>recordsData :=
          (recordsData seed)[4 := mk ''5'' ''Nia'' ''Bulging_Eyes'' ''2025-01-09T12:30:00.000Z'']\<rparr>)
   \<and> record_q seed (JNum (safe_integer_of 999)) = None
   \<and> deleteRecord seed (JNum (safe_integer_of 999)) =
       (\<lparr>success = False, message = ''Record with id 999 not found.'', removed = None\<rparr>,
        seed)
   \<and> updateRecord host0 seed (JNum (safe_integer_of 999)) JUndefined JUndefined JUndefined =
       (Inl (Error ''Record with id 999 not found.''), seed)"
proof -
  have v: "int_of_safe (safe_integer_of 5) = 5" "int_of_safe (safe_integer_of 999) = 999"
    by (simp_all add: safe_integer_of_inverse)
  have five: "js_String (JNum (safe_integer_of 5)) = ''5''"
    and nnn: "js_String (JNum (safe_integer_of 999)) = ''999''"
    by (simp_all add: v string_of_int_def string_of_nat.simps digit_char_table)
  have f: "findIndex (\<lambda>r. rid r = ''5'') (recordsData seed) = Some 4"
    by (simp add: seed_def seed_records_def mk_def)
  have r: "recordsData seed ! 4 = mk ''5'' ''Neha'' ''Bulging_Eyes'' ''2025-01-09T12:30:00.000Z''"
    by (simp add: seed_def seed_records_def)
  have m: "''999'' \<notin> set (map rid (recordsData seed))"
    by (simp add: seed_def seed_records_def mk_def)
  have tr: "js_trim '' Nia '' = ''Nia''" by (simp add: js_trim_def js_whitespace_def)
  note t5 = id_coerced_to_string
    [where s = seed and i = "JNum (safe_integer_of 5)" and h = host0
       and nm = "JStr '' Nia ''" and d = JUndefined and da = JUndefined,
     unfolded five, THEN conjunct2, THEN conjunct2, THEN conjunct2, THEN conjunct1,
     rule_format, OF f, unfolded r]
  note t999 = id_coerced_to_string
    [where s = seed and i = "JNum (safe_integer_of 999)" and h = host0
       and nm = JUndefined and d = JUndefined and da = JUndefined,
     unfolded nnn, THEN conjunct2, THEN conjunct2, THEN conjunct1, rule_format, OF m]
  from t5 have a: "record_q seed (JNum (safe_integer_of 5)) =
     Some (mk ''5'' ''Neha'' ''Bulging_Eyes'' ''2025-01-09T12:30:00.000Z'')"
    by blast
  from t5 have b: "deleteRecord seed (JNum (safe_integer_of 5)) =
       (\<lparr>success = True, message = ''Record 5 deleted successfully.'',
         removed = Some (mk ''5'' ''Neha'' ''Bulging_Eyes'' ''2025-01-09T12:30:00.000Z'')\<rparr>,
        seed\<lparr>recordsData := take 4 (recordsData seed) @ drop 5 (recordsData seed)\<rparr>)"
    by simp
  from t5 tr have c: "updateRecord host0 seed (JNum (safe_integer_of 5)) (JStr '' Nia '') JUndefined JUndefined =
       (Inr (mk ''5'' ''Nia'' ''Bulging_Eyes'' ''2025-01-09T12:30:00.000Z''),
        seed\<lparr>recordsData :=
          (recordsData seed)[4 := mk ''5'' ''Nia'' ''Bulging_Eyes'' ''2025-01-09T12:30:00.000Z'']\<rparr>)"
    by (simp add: Let_def mk_def)
  from t999 have d: "record_q seed (JNum (safe_integer_of 999)) = None" by blast
  from t999 have e: "deleteRecord seed (JNum (safe_integer_of 999)) =
       (\<lparr>success = False, message = ''Record with id 999 not found.'', removed = None\<rparr>,
        seed)"
    by simp
  from t999 have g: "updateRecord host0 seed (JNum (safe_integer_of 999)) JUndefined JUndefined JUndefined =
       (Inl (Error ''Record with id 999 not found.''), seed)"
    by simp
  from a b c d e g show ?thesis by blast
qed

text \<open>
  C10. A value that is not a string (\<open>null\<close> for one) in the place of \<open>name\<close>,
  \<open>disease\<close> or \<open>dateAdded\<close> is to \<open>updateRecord\<close> what an omitted argument is;
  with such a value in all three places an existing record is returned as it is
  and the store is unchanged.
\<close>

theorem updateRecord_non_string_as_omitted:
  assumes "\<forall>x. v \<noteq> JStr x"
  shows "updateRecord h s i v d da = updateRecord h s i JUndefined d da
       \<and> updateRecord h s i nm v da = updateRecord h s i nm JUndefined da
       \<and> updateRecord h s i nm d v = updateRecord h s i nm d JUndefined
       \<and> (\<forall>r. record_q s i = Some r \<longrightarrow> updateRecord h s i v v v = (Inr r, s))"
proof -
  note other = upd_name_other [OF assms] upd_disease_other [OF assms]
    upd_date_other [OF assms]
  have "updateRecord h s i v d da = updateRecord h s i JUndefined d da"
    by (simp add: updateRecord_def other cong: option.case_cong sum.case_cong)
  moreover have "updateRecord h s i nm v da = updateRecord h s i nm JUndefined da"
    by (simp add: updateRecord_def other cong: option.case_cong sum.case_cong)
  moreover have "updateRecord h s i nm d v = updateRecord h s i nm d JUndefined"
    by (simp add: updateRecord_def other cong: option.case_cong sum.case_cong)
  moreover have "updateRecord h s i v v v = (Inr r, s)" if "record_q s i = Some r" for r
  proof -
    from that obtain k where k: "findIndex (has_id i) (recordsData s) = Some k"
      "recordsData s ! k = r"
      by (auto simp: record_q_findIndex)
    from k(1) have "k < length (recordsData s)" by (simp add: findIndex_Some)
    then have "put k r s = s" using put_same [of k s] by (simp add: k(2))
    then show ?thesis by (simp add: updateRecord_def k other)
  qed
  ultimately show ?thesis by blast
qed

theorem updateRecord_non_string_as_omitted_witness:
  "(\<forall>x. JNull \<noteq> JStr x)
   \<and> updateRecord host0 seed (JStr ''5'') JNull JNull JNull =
       (Inr (mk ''5'' ''Neha'' ''Bulging_Eyes'' ''2025-01-09T12:30:00.000Z''), seed)"
proof -
  have h: "\<forall>x. JNull \<noteq> JStr x" by simp
  have q: "record_q seed (JStr ''5'') =
       Some (mk ''5'' ''Neha'' ''Bulging_Eyes'' ''2025-01-09T12:30:00.000Z'')"
    by (simp add: record_q_def seed_def seed_records_def mk_def has_id_def)
  from updateRecord_non_string_as_omitted
         [OF h, where h = host0 and s = seed and i = "JStr ''5''"
            and d = JNull and da = JNull and nm = JNull] q
  show ?thesis by blast
qed

end
